theory Spec2Isabelle
  imports Main "HOL-Library.Word"
begin

section \<open>The autocomplete service (go-autocomplete/main.go)\<close>

text \<open>
  The service keeps no state of its own: every operation is a conversation with the
  search engine through the client \<open>es\<close>. The embedding therefore passes a world
  through every function: the engine's state, and the list of calls made to it so far.
  Strings are byte lists (\<open>string\<close>), as Go's strings are. A JSON text is held as
  the tree it denotes.
\<close>

subsection \<open>JSON trees\<close>

text \<open>
  An object keeps its members in the order of the text, duplicates included, since Go's
  decoder visits them in that order. \<open>JInt\<close> is a number written as an integer
  literal, \<open>JFloat\<close> a number written with a fraction or an exponent (kept as its
  text).
\<close>

datatype json =
    JNull
  | JBool bool
  | JInt int
  | JFloat string
  | JString string
  | JArray "json list"
  | JObject "(string \<times> json) list"

subsection \<open>The engine client\<close>

text \<open>
  \<open>esapi.Response\<close>: the status code and the body. The body is \<open>None\<close> when it
  does not start with a JSON text (or cannot be read), otherwise the tree of its first
  JSON text, which is all that \<open>json.Decoder.Decode\<close> reads.
\<close>

record Response =
  StatusCode :: int
  Body :: "json option"

text \<open>\<open>func (r *Response) IsError() bool { return r.StatusCode > 299 }\<close>\<close>

definition IsError :: "Response \<Rightarrow> bool" where
  "IsError res = (StatusCode res > 299)"

text \<open>
  The four engine operations the service uses: \<open>es.Indices.Exists\<close> (index names),
  \<open>es.Indices.Create\<close> (index name, body), \<open>esapi.UpdateRequest\<close> (Index,
  DocumentID, Body) and \<open>es.Search\<close> (index, body).
\<close>

datatype es_call =
    IndicesExists "string list"
  | IndicesCreate string json
  | UpdateRequest string string json
  | Search string json

text \<open>
  A client answers a call with a transport error (\<open>Inl\<close>, Go's \<open>err != nil\<close>) or a
  response, and moves the engine to a new state. Nothing is assumed about the engine.
\<close>

type_synonym 'e client = "es_call \<Rightarrow> 'e \<Rightarrow> (string + Response) \<times> 'e"

text \<open>The errors the service builds, one constructor for each \<open>errors.New\<close> and
  \<open>fmt.Errorf\<close> of the source.\<close>

datatype decode_error = SyntaxError | UnmarshalTypeError string

datatype error =
    IndexCheckFailed string
  | IndexCheckStatus int
  | IndexCreateFailed string
  | IndexCreateResponse Response
  | KeywordEmpty
  | PayloadMarshalFailed
  | UpsertRequestFailed string
  | UpsertResponse Response
  | QueryMarshalFailed
  | SearchRequestFailed string
  | SearchResponse Response
  | ResponseParseFailed decode_error

record 'e world =
  engine :: 'e
  calls :: "es_call list"
  logged :: "error list"

definition perform :: "'e client \<Rightarrow> es_call \<Rightarrow> 'e world \<Rightarrow> (string + Response) \<times> 'e world" where
  "perform es c w =
     (case es c (engine w) of
        (r, e') \<Rightarrow> (r, w\<lparr>engine := e', calls := calls w @ [c]\<rparr>))"

subsection \<open>Index bootstrap\<close>

definition indexName :: string where
  "indexName = ''autocomplete''"

text \<open>The constant \<open>indexMapping\<close>, as the tree its text denotes.\<close>

definition indexMapping :: json where
  "indexMapping =
     JObject [
       (''settings'', JObject [
         (''analysis'', JObject [
           (''filter'', JObject [
             (''autocomplete_filter'', JObject [
               (''type'', JString ''edge_ngram''),
               (''min_gram'', JInt 1),
               (''max_gram'', JInt 20)])]),
           (''analyzer'', JObject [
             (''autocomplete'', JObject [
               (''type'', JString ''custom''),
               (''tokenizer'', JString ''standard''),
               (''filter'', JArray [JString ''lowercase'', JString ''autocomplete_filter''])])])])]),
       (''mappings'', JObject [
         (''properties'', JObject [
           (''keyword'', JObject [(''type'', JString ''keyword'')]),
           (''suggest'', JObject [
             (''type'', JString ''completion''),
             (''analyzer'', JString ''autocomplete''),
             (''preserve_separators'', JBool True)]),
           (''meta'', JObject [(''type'', JString ''object''), (''enabled'', JBool True)])])])]"

text \<open>
  \<open>ensureIndex\<close> returns Go's \<open>error\<close>: \<open>None\<close> is \<open>nil\<close>. The deferred
  \<open>discard\<close> of a response body reads and closes it, which changes nothing here.
\<close>

definition ensureIndex :: "'e client \<Rightarrow> 'e world \<Rightarrow> error option \<times> 'e world" where
  "ensureIndex es w =
     (case perform es (IndicesExists [indexName]) w of
        (Inl err, w1) \<Rightarrow> (Some (IndexCheckFailed err), w1)
      | (Inr res, w1) \<Rightarrow>
          if StatusCode res = 200 then (None, w1)
          else if StatusCode res \<noteq> 404 then (Some (IndexCheckStatus (StatusCode res)), w1)
          else
            (case perform es (IndicesCreate indexName indexMapping) w1 of
               (Inl err, w2) \<Rightarrow> (Some (IndexCreateFailed err), w2)
             | (Inr createRes, w2) \<Rightarrow>
                 if IsError createRes then (Some (IndexCreateResponse createRes), w2)
                 else (None, w2)))"

subsection \<open>Engines used as concrete inputs\<close>

text \<open>
  An engine that only tracks which indices exist. Creating an index that is already
  there is answered as Elasticsearch does, with status 400 and a
  \<open>resource_already_exists_exception\<close>.
\<close>

definition already_exists_response :: Response where
  "already_exists_response =
     \<lparr>StatusCode = 400,
      Body = Some (JObject [
        (''error'', JObject [(''type'', JString ''resource_already_exists_exception'')]),
        (''status'', JInt 400)])\<rparr>"

definition ok_response :: Response where
  "ok_response = \<lparr>StatusCode = 200, Body = Some (JObject [(''acknowledged'', JBool True)])\<rparr>"

definition not_found_response :: Response where
  "not_found_response = \<lparr>StatusCode = 404, Body = None\<rparr>"

fun index_engine :: "string list client" where
  "index_engine (IndicesExists names) s =
     (if list_all (\<lambda>n. n \<in> set s) names
      then (Inr \<lparr>StatusCode = 200, Body = None\<rparr>, s)
      else (Inr not_found_response, s))"
| "index_engine (IndicesCreate name body) s =
     (if name \<in> set s then (Inr already_exists_response, s) else (Inr ok_response, name # s))"
| "index_engine (UpdateRequest index ident body) s = (Inr ok_response, s)"
| "index_engine (Search index body) s = (Inr ok_response, s)"

text \<open>
  The race: the state \<open>False\<close> is "another process is about to create the index".
  The existence check still answers 404, and the index is there (state \<open>True\<close>) by
  the time this service's own creation request arrives.
\<close>

fun racing_engine :: "bool client" where
  "racing_engine (IndicesExists names) created =
     (if created then (Inr \<lparr>StatusCode = 200, Body = None\<rparr>, True)
      else (Inr not_found_response, True))"
| "racing_engine (IndicesCreate name body) created =
     (if created then (Inr already_exists_response, True) else (Inr ok_response, True))"
| "racing_engine (UpdateRequest index ident body) created = (Inr ok_response, created)"
| "racing_engine (Search index body) created = (Inr ok_response, created)"

text \<open>An engine that cannot be reached, and one that answers every call with one response.\<close>

definition unreachable_engine :: "unit client" where
  "unreachable_engine c s = (Inl ''connection refused'', s)"

definition constant_engine :: "Response \<Rightarrow> unit client" where
  "constant_engine res c s = (Inr res, s)"

section \<open>Index bootstrap: the protocol\<close>

text \<open>
  C3 (as the code has it). The existence check is always the first call. When it answers
  200, \<open>ensureIndex\<close> succeeds and no creation request is made; so a second run, which
  finds the index present, issues the check alone and succeeds. When it answers 404, one
  creation request for \<open>indexName\<close> with the schema \<open>indexMapping\<close> follows, and the
  result is success exactly when the creation response has a status of at most 299:
  every error response to the creation request is an error, the "already exists"
  response (status 400) included. Any other status of the check, and a transport error
  of either call, is an error.
\<close>

theorem ensureIndex_protocol:
  "(\<forall>res s1. es (IndicesExists [indexName]) (engine w) = (Inr res, s1) \<and> StatusCode res = 200 \<longrightarrow>
      ensureIndex es w =
        (None, w\<lparr>engine := s1, calls := calls w @ [IndicesExists [indexName]]\<rparr>))
   \<and> (\<forall>res s1 cres s2. es (IndicesExists [indexName]) (engine w) = (Inr res, s1)
        \<and> StatusCode res = 404
        \<and> es (IndicesCreate indexName indexMapping) s1 = (Inr cres, s2) \<longrightarrow>
      ensureIndex es w =
        (if StatusCode cres \<le> 299 then None else Some (IndexCreateResponse cres),
         w\<lparr>engine := s2,
           calls := calls w @ [IndicesExists [indexName], IndicesCreate indexName indexMapping]\<rparr>))
   \<and> (\<forall>res s1 err s2. es (IndicesExists [indexName]) (engine w) = (Inr res, s1)
        \<and> StatusCode res = 404
        \<and> es (IndicesCreate indexName indexMapping) s1 = (Inl err, s2) \<longrightarrow>
      ensureIndex es w =
        (Some (IndexCreateFailed err),
         w\<lparr>engine := s2,
           calls := calls w @ [IndicesExists [indexName], IndicesCreate indexName indexMapping]\<rparr>))
   \<and> (\<forall>res s1. es (IndicesExists [indexName]) (engine w) = (Inr res, s1)
        \<and> StatusCode res \<noteq> 200 \<and> StatusCode res \<noteq> 404 \<longrightarrow>
      ensureIndex es w =
        (Some (IndexCheckStatus (StatusCode res)),
         w\<lparr>engine := s1, calls := calls w @ [IndicesExists [indexName]]\<rparr>))
   \<and> (\<forall>err s1. es (IndicesExists [indexName]) (engine w) = (Inl err, s1) \<longrightarrow>
      ensureIndex es w =
        (Some (IndexCheckFailed err),
         w\<lparr>engine := s1, calls := calls w @ [IndicesExists [indexName]]\<rparr>))"
  by (simp add: ensureIndex_def perform_def IsError_def)

text \<open>
  The protocol at concrete engines: a first run on an engine without the index creates
  it, a second run finds it and only checks; an engine answering 503 and an unreachable
  engine give errors after the check alone.
\<close>

theorem ensureIndex_protocol_witness:
  "ensureIndex index_engine \<lparr>engine = [], calls = [], logged = []\<rparr> =
     (None, \<lparr>engine = [indexName],
             calls = [IndicesExists [indexName], IndicesCreate indexName indexMapping],
             logged = []\<rparr>)
   \<and> ensureIndex index_engine
        \<lparr>engine = [indexName],
         calls = [IndicesExists [indexName], IndicesCreate indexName indexMapping],
         logged = []\<rparr> =
     (None, \<lparr>engine = [indexName],
             calls = [IndicesExists [indexName], IndicesCreate indexName indexMapping,
                      IndicesExists [indexName]],
             logged = []\<rparr>)
   \<and> ensureIndex (constant_engine \<lparr>StatusCode = 503, Body = None\<rparr>)
        \<lparr>engine = (), calls = [], logged = []\<rparr> =
     (Some (IndexCheckStatus 503),
      \<lparr>engine = (), calls = [IndicesExists [indexName]], logged = []\<rparr>)
   \<and> ensureIndex unreachable_engine \<lparr>engine = (), calls = [], logged = []\<rparr> =
     (Some (IndexCheckFailed ''connection refused''),
      \<lparr>engine = (), calls = [IndicesExists [indexName]], logged = []\<rparr>)"
  using ensureIndex_protocol [of index_engine "\<lparr>engine = [], calls = [], logged = []\<rparr>"]
    ensureIndex_protocol [of index_engine
      "\<lparr>engine = [indexName],
        calls = [IndicesExists [indexName], IndicesCreate indexName indexMapping],
        logged = []\<rparr>"]
    ensureIndex_protocol [of "constant_engine \<lparr>StatusCode = 503, Body = None\<rparr>"
      "\<lparr>engine = (), calls = [], logged = []\<rparr>"]
    ensureIndex_protocol [of unreachable_engine "\<lparr>engine = (), calls = [], logged = []\<rparr>"]
  by (simp add: not_found_response_def ok_response_def constant_engine_def
      unreachable_engine_def)

text \<open>
  The claim as the specification states it fails in the race: the check answers 404,
  the creation request is answered "already exists", and \<open>ensureIndex\<close> returns an
  error.
\<close>

theorem ensureIndex_race_counterexample:
  "racing_engine (IndicesExists [indexName]) False = (Inr not_found_response, True)
   \<and> StatusCode not_found_response = 404
   \<and> racing_engine (IndicesCreate indexName indexMapping) True
       = (Inr already_exists_response, True)
   \<and> fst (ensureIndex racing_engine \<lparr>engine = False, calls = [], logged = []\<rparr>)
       = Some (IndexCreateResponse already_exists_response)"
  by (simp add: ensureIndex_def perform_def IsError_def not_found_response_def
      already_exists_response_def)

end
